theory Spec2Isabelle
  imports Main "HOL-Library.Word"
begin

section \<open>GPIO control module: the JTAG multiplexer select lines\<close>

text \<open>
  A shallow embedding of \<^verbatim>\<open>sw/jtag-switch/src/gpio/gpio_control.c\<close>. The module keeps
  three static variables (\<^verbatim>\<open>select0_state\<close>, \<^verbatim>\<open>select1_state\<close>, \<^verbatim>\<open>initialized\<close>) and
  drives two GPIO pins through the Zephyr GPIO driver interface. The model passes the
  state explicitly. Logging has no effect on the state and is left out. The mutex is
  held over every function body, so the functions are modelled as sequential steps.
\<close>

subsection \<open>Error numbers\<close>

text \<open>
  The driver interface reports failure as a negative error number. The constants come
  from the C library's \<^verbatim>\<open>errno.h\<close>, which is not part of the repository; the values are
  the ones Zephyr's libc uses.
\<close>

datatype errno = EIO | EWOULDBLOCK | ENODEV | EINVAL | ENOTSUP

fun errno_val :: "errno \<Rightarrow> int" where
  "errno_val EIO = 5"
| "errno_val EWOULDBLOCK = 11"
| "errno_val ENODEV = 19"
| "errno_val EINVAL = 22"
| "errno_val ENOTSUP = 134"

subsection \<open>The two pins and the state\<close>

text \<open>
  \<open>Select0\<close> and \<open>Select1\<close> stand for the device tree specs \<^verbatim>\<open>jtag_select0\<close> and
  \<^verbatim>\<open>jtag_select1\<close>.
\<close>

datatype pin = Select0 | Select1

text \<open>The driver calls the module can issue, in the order they are issued.\<close>

datatype hw_call = IsReady pin | Configure pin | PinSet pin int | PinGet pin

text \<open>
  What the hardware does at one driver call. \<open>Nominal\<close>: the call works. \<open>Fault e\<close>: the
  call fails with \<^verbatim>\<open>-e\<close> and has no effect on the pin. \<open>Misread\<close>: a read returns the
  inverse of the level that is driven (a wiring or input path fault); it concerns reads
  only, the other calls work under it.
\<close>

datatype outcome = Nominal | Fault errno | Misread

text \<open>
  The first three fields are the static variables of the module. \<open>level0\<close> and \<open>level1\<close>
  are the levels the two physical lines are driven to (\<open>True\<close> is HIGH). \<open>script\<close> holds
  the outcomes of the driver calls still to come, one per call; when it is used up the
  hardware is free of faults. \<open>trace\<close> lists the driver calls issued so far.
\<close>

record sys =
  select0_state :: bool
  select1_state :: bool
  initialized :: bool
  level0 :: bool
  level1 :: bool
  script :: "outcome list"
  trace :: "hw_call list"

text \<open>
  Reading and writing through \<^verbatim>\<open>state_var\<close> and \<^verbatim>\<open>other_state_var\<close>, which point to the
  tracked state of a pin.
\<close>

fun tracked :: "pin \<Rightarrow> sys \<Rightarrow> bool" where
  "tracked Select0 s = select0_state s"
| "tracked Select1 s = select1_state s"

fun set_tracked :: "pin \<Rightarrow> bool \<Rightarrow> sys \<Rightarrow> sys" where
  "set_tracked Select0 b s = s\<lparr>select0_state := b\<rparr>"
| "set_tracked Select1 b s = s\<lparr>select1_state := b\<rparr>"

fun driven :: "pin \<Rightarrow> sys \<Rightarrow> bool" where
  "driven Select0 s = level0 s"
| "driven Select1 s = level1 s"

fun drive :: "pin \<Rightarrow> bool \<Rightarrow> sys \<Rightarrow> sys" where
  "drive Select0 b s = s\<lparr>level0 := b\<rparr>"
| "drive Select1 b s = s\<lparr>level1 := b\<rparr>"

subsection \<open>The driver interface\<close>

text \<open>
  The Zephyr driver functions are outside the repository. Each call behaves as the
  next outcome of the script says, uses that outcome up and is appended to the trace.
\<close>

definition next_outcome :: "sys \<Rightarrow> outcome" where
  "next_outcome s = (case script s of [] \<Rightarrow> Nominal | f # fs \<Rightarrow> f)"

definition advance :: "hw_call \<Rightarrow> sys \<Rightarrow> sys" where
  "advance c s = s\<lparr>script := drop 1 (script s), trace := trace s @ [c]\<rparr>"

definition gpio_is_ready_dt :: "pin \<Rightarrow> sys \<Rightarrow> bool \<times> sys" where
  "gpio_is_ready_dt spec s =
     (case next_outcome s of
        Fault e \<Rightarrow> (False, advance (IsReady spec) s)
      | _ \<Rightarrow> (True, advance (IsReady spec) s))"

text \<open>The module configures with \<^verbatim>\<open>GPIO_OUTPUT_INACTIVE\<close> only: an output, driven LOW.\<close>

definition gpio_pin_configure_dt :: "pin \<Rightarrow> sys \<Rightarrow> int \<times> sys" where
  "gpio_pin_configure_dt spec s =
     (case next_outcome s of
        Fault e \<Rightarrow> (- errno_val e, advance (Configure spec) s)
      | _ \<Rightarrow> (0, drive spec False (advance (Configure spec) s)))"

definition gpio_pin_set_dt :: "pin \<Rightarrow> int \<Rightarrow> sys \<Rightarrow> int \<times> sys" where
  "gpio_pin_set_dt spec v s =
     (case next_outcome s of
        Fault e \<Rightarrow> (- errno_val e, advance (PinSet spec v) s)
      | _ \<Rightarrow> (0, drive spec (v \<noteq> 0) (advance (PinSet spec v) s)))"

definition gpio_pin_get_dt :: "pin \<Rightarrow> sys \<Rightarrow> int \<times> sys" where
  "gpio_pin_get_dt spec s =
     (case next_outcome s of
        Nominal \<Rightarrow> (if driven spec s then 1 else 0, advance (PinGet spec) s)
      | Fault e \<Rightarrow> (- errno_val e, advance (PinGet spec) s)
      | Misread \<Rightarrow> (if driven spec s then 0 else 1, advance (PinGet spec) s))"

subsection \<open>The module\<close>

text \<open>
  \<^verbatim>\<open>verify_gpio_state\<close>. The first argument is \<^verbatim>\<open>CONFIG_GPIO_EMUL\<close>: in a simulation build
  the readback is skipped.
\<close>

definition verify_gpio_state :: "bool \<Rightarrow> pin \<Rightarrow> int \<Rightarrow> sys \<Rightarrow> int \<times> sys" where
  "verify_gpio_state emul spec expected s =
     (if emul then (0, s)
      else
        (case gpio_pin_get_dt spec s of
           (actual, s1) \<Rightarrow>
             if actual < 0 then (- errno_val EIO, s1)
             else if actual \<noteq> expected then (- errno_val EIO, s1)
             else (0, s1)))"

text \<open>\<^verbatim>\<open>gpio_control_init\<close>.\<close>

definition gpio_control_init :: "bool \<Rightarrow> sys \<Rightarrow> int \<times> sys" where
  "gpio_control_init emul s =
     (if initialized s then (0, s)
      else
        (case gpio_is_ready_dt Select0 s of
           (ready0, s1) \<Rightarrow>
        if \<not> ready0 then (- errno_val ENODEV, s1)
        else
        (case gpio_is_ready_dt Select1 s1 of
           (ready1, s2) \<Rightarrow>
        if \<not> ready1 then (- errno_val ENODEV, s2)
        else
        (case gpio_pin_configure_dt Select0 s2 of
           (ret, s3) \<Rightarrow>
        if ret < 0 then (ret, s3)
        else
        (case verify_gpio_state emul Select0 0 s3 of
           (ret, s4) \<Rightarrow>
        if ret < 0 then (ret, s4)
        else
        (case gpio_pin_configure_dt Select1 s4 of
           (ret, s5) \<Rightarrow>
        if ret < 0 then (ret, s5)
        else
        (case verify_gpio_state emul Select1 0 s5 of
           (ret, s6) \<Rightarrow>
        if ret < 0 then (ret, s6)
        else
          (0, s6\<lparr>select0_state := False, select1_state := False,
                 initialized := True\<rparr>))))))))"

text \<open>
  The \<^verbatim>\<open>switch\<close> of \<^verbatim>\<open>gpio_control_set_select\<close> on the \<^verbatim>\<open>uint8_t\<close> line number: the pin
  of the line and the other pin, or nothing for the \<^verbatim>\<open>default\<close> branch.
\<close>

definition select_specs :: "8 word \<Rightarrow> (pin \<times> pin) option" where
  "select_specs select_line =
     (if select_line = 0 then Some (Select0, Select1)
      else if select_line = 1 then Some (Select1, Select0)
      else None)"

text \<open>
  The rollback of \<^verbatim>\<open>gpio_control_set_select\<close>, written twice in the source (after a
  failed write and after a failed verification of the requested line): when the other
  pin was cleared, it is written back to its original state, and the tracked state
  follows when that write returns 0.
\<close>

definition rollback :: "pin \<Rightarrow> bool \<Rightarrow> bool \<Rightarrow> sys \<Rightarrow> sys" where
  "rollback other_gpio_spec other_pin_cleared original_other_state s =
     (if other_pin_cleared then
        (case gpio_pin_set_dt other_gpio_spec (if original_other_state then 1 else 0) s of
           (rollback_ret, s1) \<Rightarrow>
             if rollback_ret = 0 then set_tracked other_gpio_spec original_other_state s1
             else s1)
      else s)"

text \<open>
  The second half of \<^verbatim>\<open>gpio_control_set_select\<close>, from "Set the requested line to
  desired state" to the end.
\<close>

definition set_requested :: "bool \<Rightarrow> pin \<Rightarrow> pin \<Rightarrow> bool \<Rightarrow> bool \<Rightarrow> bool \<Rightarrow> sys \<Rightarrow> int \<times> sys" where
  "set_requested emul gpio_spec other_gpio_spec state other_pin_cleared
       original_other_state s =
     (case gpio_pin_set_dt gpio_spec (if state then 1 else 0) s of
        (ret, s1) \<Rightarrow>
          if ret < 0 then
            (ret, rollback other_gpio_spec other_pin_cleared original_other_state s1)
          else
            (case verify_gpio_state emul gpio_spec (if state then 1 else 0) s1 of
               (ret, s2) \<Rightarrow>
                 if ret < 0 then
                   (ret, rollback other_gpio_spec other_pin_cleared original_other_state s2)
                 else (0, set_tracked gpio_spec state s2)))"

text \<open>
  \<^verbatim>\<open>gpio_control_set_select\<close>. Without pre-emption \<^verbatim>\<open>original_other_state\<close> is left
  unassigned and is not read, since \<^verbatim>\<open>other_pin_cleared\<close> is false; the model passes
  \<open>False\<close> for it.
\<close>

definition gpio_control_set_select :: "bool \<Rightarrow> 8 word \<Rightarrow> bool \<Rightarrow> sys \<Rightarrow> int \<times> sys" where
  "gpio_control_set_select emul select_line state s =
     (if \<not> initialized s then (- errno_val EINVAL, s)
      else
        (case select_specs select_line of
           None \<Rightarrow> (- errno_val EINVAL, s)
         | Some (gpio_spec, other_gpio_spec) \<Rightarrow>
             if state \<and> tracked other_gpio_spec s then
               (let original_other_state = tracked other_gpio_spec s in
                case gpio_pin_set_dt other_gpio_spec 0 s of
                  (ret, s1) \<Rightarrow>
                    if ret < 0 then (ret, s1)
                    else
                      (case verify_gpio_state emul other_gpio_spec 0 s1 of
                         (ret, s2) \<Rightarrow>
                           if ret < 0 then (ret, s2)
                           else
                             set_requested emul gpio_spec other_gpio_spec state True
                               original_other_state
                               (set_tracked other_gpio_spec False s2)))
             else set_requested emul gpio_spec other_gpio_spec state False False s))"

text \<open>
  \<^verbatim>\<open>gpio_control_get_select\<close>. The argument \<^verbatim>\<open>bool *state\<close> is \<open>Null\<close> or points to a cell
  with the given content; the cell is returned with the content it has after the call.
\<close>

datatype bool_ptr = Null | Ptr bool

definition gpio_control_get_select :: "8 word \<Rightarrow> bool_ptr \<Rightarrow> sys \<Rightarrow> int \<times> bool_ptr \<times> sys" where
  "gpio_control_get_select select_line state s =
     (if \<not> initialized s \<or> state = Null then (- errno_val EINVAL, state, s)
      else if select_line = 0 then (0, Ptr (select0_state s), s)
      else if select_line = 1 then (0, Ptr (select1_state s), s)
      else (- errno_val EINVAL, state, s))"

text \<open>
  \<^verbatim>\<open>gpio_control_toggle_select\<close>. The local \<^verbatim>\<open>current_state\<close> is read only after
  \<^verbatim>\<open>gpio_control_get_select\<close> has stored into it, so its first content does not matter.
\<close>

definition gpio_control_toggle_select :: "bool \<Rightarrow> 8 word \<Rightarrow> sys \<Rightarrow> int \<times> sys" where
  "gpio_control_toggle_select emul select_line s =
     (case gpio_control_get_select select_line (Ptr False) s of
        (ret, current_state, s1) \<Rightarrow>
          if ret < 0 then (ret, s1)
          else
            (case current_state of
               Ptr b \<Rightarrow> gpio_control_set_select emul select_line (\<not> b) s1
             | Null \<Rightarrow> (ret, s1)))"

subsection \<open>Callers\<close>

text \<open>
  The state at process start, from the initialisers of the static variables; no line is
  driven before \<^verbatim>\<open>gpio_control_init\<close> has configured it. The argument is the behaviour of
  the hardware at the driver calls to come.
\<close>

definition boot_state :: "outcome list \<Rightarrow> sys" where
  "boot_state sc =
     \<lparr>select0_state = False, select1_state = False, initialized = False,
      level0 = False, level1 = False, script = sc, trace = []\<rparr>"

text \<open>
  Two states of an initialised controller, tracked and driven alike: both lines LOW, and
  line 0 HIGH with line 1 LOW.
\<close>

definition lines_low :: "outcome list \<Rightarrow> sys" where
  "lines_low sc =
     \<lparr>select0_state = False, select1_state = False, initialized = True,
      level0 = False, level1 = False, script = sc, trace = []\<rparr>"

definition line0_high :: "outcome list \<Rightarrow> sys" where
  "line0_high sc =
     \<lparr>select0_state = True, select1_state = False, initialized = True,
      level0 = True, level1 = False, script = sc, trace = []\<rparr>"

text \<open>
  The callers (boot sequence, shell commands, REST handlers) use the three functions
  that change state. A run is a list of such calls, executed one after the other.
\<close>

datatype api_call = Init | SetSelect "8 word" bool | ToggleSelect "8 word"

fun exec_call :: "bool \<Rightarrow> api_call \<Rightarrow> sys \<Rightarrow> int \<times> sys" where
  "exec_call emul Init s = gpio_control_init emul s"
| "exec_call emul (SetSelect select_line state) s =
     gpio_control_set_select emul select_line state s"
| "exec_call emul (ToggleSelect select_line) s =
     gpio_control_toggle_select emul select_line s"

fun exec_calls :: "bool \<Rightarrow> api_call list \<Rightarrow> sys \<Rightarrow> sys" where
  "exec_calls emul [] s = s"
| "exec_calls emul (c # cs) s = exec_calls emul cs (snd (exec_call emul c s))"

text \<open>Every driver call still to come works.\<close>

definition fault_free :: "sys \<Rightarrow> bool" where
  "fault_free s = list_all (\<lambda>f. f = Nominal) (script s)"

text \<open>The two tracked states are not both HIGH; the two lines are not both driven HIGH.\<close>

definition tracked_exclusive :: "sys \<Rightarrow> bool" where
  "tracked_exclusive s = (\<not> (select0_state s \<and> select1_state s))"

definition driven_exclusive :: "sys \<Rightarrow> bool" where
  "driven_exclusive s = (\<not> (level0 s \<and> level1 s))"

text \<open>The tracked states and the driven levels agree, and are LOW before initialisation.\<close>

definition in_step :: "sys \<Rightarrow> bool" where
  "in_step s =
     (level0 s = select0_state s \<and> level1 s = select1_state s \<and>
      (initialized s \<or> (\<not> select0_state s \<and> \<not> select1_state s)))"

text \<open>Nothing is driven HIGH and nothing is tracked HIGH.\<close>

definition all_low :: "sys \<Rightarrow> bool" where
  "all_low s = (\<not> level0 s \<and> \<not> level1 s \<and> \<not> select0_state s \<and> \<not> select1_state s)"

subsection \<open>Causes of failure\<close>

text \<open>
  The causes of a failed \<^verbatim>\<open>gpio_control_set_select\<close>, as the specification lists them: the
  controller is not initialised, the line number is wrong, a hardware write failed on a
  line (with the error the driver gave), or the verification of a line failed. The
  function itself returns an \<^verbatim>\<open>int\<close>; \<open>cause_value\<close> is the value that stands for a cause.
\<close>

datatype cause =
    NotInitialized
  | InvalidLine
  | HardwareWriteFailed pin errno
  | VerificationFailed pin

fun cause_value :: "cause \<Rightarrow> int" where
  "cause_value NotInitialized = - errno_val EINVAL"
| "cause_value InvalidLine = - errno_val EINVAL"
| "cause_value (HardwareWriteFailed p e) = - errno_val e"
| "cause_value (VerificationFailed p) = - errno_val EIO"

text \<open>The outcome of the \<open>i\<close>-th driver call from now.\<close>

definition outcome_at :: "sys \<Rightarrow> nat \<Rightarrow> outcome" where
  "outcome_at s i = (case drop i (script s) of [] \<Rightarrow> Nominal | f # fs \<Rightarrow> f)"

text \<open>
  What goes wrong at a write and at the readback that follows a write that worked: a
  write fails under a fault; the readback fails under a fault (a read error) and under
  a misread (a wrong level), and is skipped on a simulation build.
\<close>

definition write_cause :: "pin \<Rightarrow> outcome \<Rightarrow> cause option" where
  "write_cause p f = (case f of Fault e \<Rightarrow> Some (HardwareWriteFailed p e) | _ \<Rightarrow> None)"

definition verify_cause :: "bool \<Rightarrow> pin \<Rightarrow> outcome \<Rightarrow> cause option" where
  "verify_cause emul p f = (if emul \<or> f = Nominal then None else Some (VerificationFailed p))"

text \<open>
  One write-then-verify step on a pin, when the write is the \<open>k\<close>-th driver call from
  now: the first of the two that goes wrong.
\<close>

definition step_cause :: "bool \<Rightarrow> pin \<Rightarrow> sys \<Rightarrow> nat \<Rightarrow> cause option" where
  "step_cause emul p s k =
     (case write_cause p (outcome_at s k) of
        Some c \<Rightarrow> Some c
      | None \<Rightarrow> verify_cause emul p (outcome_at s (Suc k)))"

text \<open>
  The cause of failure of a call, read off the state and the behaviour of the hardware:
  the first thing to go wrong, in the order not initialised, wrong line, the step that
  clears the other line (when the request is HIGH and the other line is tracked HIGH),
  the step on the requested line. \<open>None\<close> when nothing goes wrong.
\<close>

definition set_select_cause :: "bool \<Rightarrow> 8 word \<Rightarrow> bool \<Rightarrow> sys \<Rightarrow> cause option" where
  "set_select_cause emul select_line state s =
     (if \<not> initialized s then Some NotInitialized
      else
        (case select_specs select_line of
           None \<Rightarrow> Some InvalidLine
         | Some (gpio_spec, other_gpio_spec) \<Rightarrow>
             if state \<and> tracked other_gpio_spec s then
               (case step_cause emul other_gpio_spec s 0 of
                  Some c \<Rightarrow> Some c
                | None \<Rightarrow> step_cause emul gpio_spec s (if emul then 1 else 2))
             else step_cause emul gpio_spec s 0))"

text \<open>The value that stands for the result of a call: 0 when there is no cause of failure.\<close>

definition value_of :: "cause option \<Rightarrow> int" where
  "value_of c = (case c of None \<Rightarrow> 0 | Some c \<Rightarrow> cause_value c)"

section \<open>Properties\<close>

subsection \<open>Fields after the basic steps\<close>

lemma errno_val_pos [simp]: "0 < errno_val e"
  by (cases e) simp_all

lemma errno_val_nonzero [simp]: "errno_val e \<noteq> 0"
  by (cases e) simp_all

lemma advance_fields [simp]:
  "select0_state (advance c s) = select0_state s"
  "select1_state (advance c s) = select1_state s"
  "initialized (advance c s) = initialized s"
  "level0 (advance c s) = level0 s"
  "level1 (advance c s) = level1 s"
  "script (advance c s) = drop 1 (script s)"
  "trace (advance c s) = trace s @ [c]"
  by (simp_all add: advance_def)

lemma drive_fields [simp]:
  "select0_state (drive p b s) = select0_state s"
  "select1_state (drive p b s) = select1_state s"
  "initialized (drive p b s) = initialized s"
  "script (drive p b s) = script s"
  "trace (drive p b s) = trace s"
  by (cases p; simp)+

lemma set_tracked_fields [simp]:
  "level0 (set_tracked p b s) = level0 s"
  "level1 (set_tracked p b s) = level1 s"
  "initialized (set_tracked p b s) = initialized s"
  "script (set_tracked p b s) = script s"
  "trace (set_tracked p b s) = trace s"
  by (cases p; simp)+

lemma tracked_simps [simp]:
  "tracked p (advance c s) = tracked p s"
  "tracked p (drive q b s) = tracked p s"
  "tracked p (set_tracked q b s) = (if p = q then b else tracked p s)"
  by (cases p; cases q; simp)+

lemma driven_simps [simp]:
  "driven p (advance c s) = driven p s"
  "driven p (drive q b s) = (if p = q then b else driven p s)"
  "driven p (set_tracked q b s) = driven p s"
  by (cases p; cases q; simp)+

lemma next_outcome_simps [simp]:
  "next_outcome (drive p b s) = next_outcome s"
  "next_outcome (set_tracked p b s) = next_outcome s"
  by (simp_all add: next_outcome_def)

subsection \<open>The driver calls and the verification\<close>

lemma set_dt_fields [simp]:
  "tracked p (snd (gpio_pin_set_dt spec v s)) = tracked p s"
  "initialized (snd (gpio_pin_set_dt spec v s)) = initialized s"
  "script (snd (gpio_pin_set_dt spec v s)) = drop 1 (script s)"
  "trace (snd (gpio_pin_set_dt spec v s)) = trace s @ [PinSet spec v]"
  by (simp_all add: gpio_pin_set_dt_def split: outcome.splits)

lemma set_dt_driven [simp]:
  "driven p (snd (gpio_pin_set_dt spec v s)) =
     (if p = spec \<and> fst (gpio_pin_set_dt spec v s) = 0 then v \<noteq> 0 else driven p s)"
  by (simp add: gpio_pin_set_dt_def split: outcome.splits)

lemma verify_fields [simp]:
  "tracked p (snd (verify_gpio_state emul spec expected s)) = tracked p s"
  "driven p (snd (verify_gpio_state emul spec expected s)) = driven p s"
  "initialized (snd (verify_gpio_state emul spec expected s)) = initialized s"
  "script (snd (verify_gpio_state emul spec expected s)) =
     (if emul then script s else drop 1 (script s))"
  "trace (snd (verify_gpio_state emul spec expected s)) =
     (if emul then trace s else trace s @ [PinGet spec])"
  by (simp_all add: verify_gpio_state_def gpio_pin_get_dt_def split_beta split: outcome.splits)

lemma rollback_fields [simp]:
  "initialized (rollback other c orig s) = initialized s"
  "tracked p (rollback other c orig s) =
     (if c \<and> p = other \<and> fst (gpio_pin_set_dt other (if orig then 1 else 0) s) = 0
      then orig else tracked p s)"
  "driven p (rollback other c orig s) =
     (if c \<and> p = other \<and> fst (gpio_pin_set_dt other (if orig then 1 else 0) s) = 0
      then orig else driven p s)"
  by (simp_all add: rollback_def split_beta)

lemma set_dt_plain_fields [simp]:
  "select0_state (snd (gpio_pin_set_dt spec v s)) = select0_state s"
  "select1_state (snd (gpio_pin_set_dt spec v s)) = select1_state s"
  "level0 (snd (gpio_pin_set_dt spec v s)) =
     (if spec = Select0 \<and> fst (gpio_pin_set_dt spec v s) = 0 then v \<noteq> 0 else level0 s)"
  "level1 (snd (gpio_pin_set_dt spec v s)) =
     (if spec = Select1 \<and> fst (gpio_pin_set_dt spec v s) = 0 then v \<noteq> 0 else level1 s)"
  by (cases spec; simp add: gpio_pin_set_dt_def split: outcome.splits)+

lemma verify_plain_fields [simp]:
  "select0_state (snd (verify_gpio_state emul spec expected s)) = select0_state s"
  "select1_state (snd (verify_gpio_state emul spec expected s)) = select1_state s"
  "level0 (snd (verify_gpio_state emul spec expected s)) = level0 s"
  "level1 (snd (verify_gpio_state emul spec expected s)) = level1 s"
  by (simp_all add: verify_gpio_state_def gpio_pin_get_dt_def split_beta split: outcome.splits)

lemma rollback_plain_fields [simp]:
  "select0_state (rollback other c orig s) =
     (if c \<and> other = Select0 \<and> fst (gpio_pin_set_dt other (if orig then 1 else 0) s) = 0
      then orig else select0_state s)"
  "select1_state (rollback other c orig s) =
     (if c \<and> other = Select1 \<and> fst (gpio_pin_set_dt other (if orig then 1 else 0) s) = 0
      then orig else select1_state s)"
  by (cases other; simp add: rollback_def split_beta)+

lemma is_ready_fields [simp]:
  "select0_state (snd (gpio_is_ready_dt spec s)) = select0_state s"
  "select1_state (snd (gpio_is_ready_dt spec s)) = select1_state s"
  "initialized (snd (gpio_is_ready_dt spec s)) = initialized s"
  by (simp_all add: gpio_is_ready_dt_def split: outcome.splits)

lemma configure_fields [simp]:
  "select0_state (snd (gpio_pin_configure_dt spec s)) = select0_state s"
  "select1_state (snd (gpio_pin_configure_dt spec s)) = select1_state s"
  "initialized (snd (gpio_pin_configure_dt spec s)) = initialized s"
  by (simp_all add: gpio_pin_configure_dt_def split: outcome.splits)

lemmas driver_defs = next_outcome_def advance_def gpio_is_ready_dt_def
  gpio_pin_configure_dt_def gpio_pin_set_dt_def gpio_pin_get_dt_def verify_gpio_state_def

lemmas module_defs = gpio_control_init_def select_specs_def rollback_def set_requested_def
  gpio_control_set_select_def gpio_control_get_select_def gpio_control_toggle_select_def

lemma select_specs_cases:
  "select_specs select_line = Some (a, b) \<Longrightarrow>
     (select_line = 0 \<and> a = Select0 \<and> b = Select1) \<or>
     (select_line = 1 \<and> a = Select1 \<and> b = Select0)"
  by (auto simp: select_specs_def split: if_splits)

text \<open>Without pre-emption the second half of the function leaves every other pin alone.\<close>

lemma set_requested_other:
  "p \<noteq> gpio_spec \<Longrightarrow>
   tracked p (snd (set_requested emul gpio_spec other st False orig s)) = tracked p s \<and>
   driven p (snd (set_requested emul gpio_spec other st False orig s)) = driven p s"
  by (simp add: set_requested_def split_beta)

subsection \<open>Rejected arguments\<close>

text \<open>
  C5. A line number other than 0 and 1 is rejected by \<^verbatim>\<open>gpio_control_set_select\<close> and by
  \<^verbatim>\<open>gpio_control_get_select\<close> with \<^verbatim>\<open>-EINVAL\<close>, whether or not the controller is
  initialised. The state is returned as it was: no driver call is added to the trace and
  no tracked state changes. The cell behind the output pointer keeps its content.
\<close>

theorem invalid_line_rejected:
  "select_line \<noteq> 0 \<Longrightarrow> select_line \<noteq> 1 \<Longrightarrow>
   gpio_control_set_select emul select_line state s = (- errno_val EINVAL, s) \<and>
   gpio_control_get_select select_line out s = (- errno_val EINVAL, out, s)"
  by (simp add: gpio_control_set_select_def gpio_control_get_select_def select_specs_def)

theorem invalid_line_rejected_witness:
  "(2 :: 8 word) \<noteq> 0 \<and> (2 :: 8 word) \<noteq> 1 \<and>
   gpio_control_set_select False 2 True (lines_low []) = (- 22, lines_low []) \<and>
   (5 :: 8 word) \<noteq> 0 \<and> (5 :: 8 word) \<noteq> 1 \<and>
   gpio_control_get_select 5 (Ptr True) (boot_state []) = (- 22, Ptr True, boot_state [])"
  using invalid_line_rejected [of 2 False True "lines_low []" "Ptr True"]
    invalid_line_rejected [of 5 False True "boot_state []" "Ptr True"]
  by simp

text \<open>
  C10. With a NULL output pointer \<^verbatim>\<open>gpio_control_get_select\<close> returns \<^verbatim>\<open>-EINVAL\<close> for every
  line number and every state. Nothing is stored, no driver call is made and the state
  is returned as it was.
\<close>

theorem get_select_null_rejected:
  "gpio_control_get_select select_line Null s = (- errno_val EINVAL, Null, s)"
  by (simp add: gpio_control_get_select_def)

theorem get_select_null_rejected_witness:
  "gpio_control_get_select 0 Null (line0_high [Fault EIO]) = (- 22, Null, line0_high [Fault EIO])"
  using get_select_null_rejected [of 0 "line0_high [Fault EIO]"]
  by simp

subsection \<open>The other line without pre-emption\<close>

text \<open>
  C9. When \<^verbatim>\<open>gpio_control_set_select\<close> is called for line 0 or 1 with \<open>state\<close> false, or
  with the other line tracked LOW, the tracked state of the other line and the level it
  is driven to are the same after the call as before, whatever the call returns and
  whatever the hardware does.
\<close>

theorem other_line_unchanged:
  assumes "select_specs select_line = Some (gpio_spec, other_gpio_spec)"
    and "\<not> state \<or> \<not> tracked other_gpio_spec s"
    and "gpio_control_set_select emul select_line state s = (ret, s')"
  shows "tracked other_gpio_spec s' = tracked other_gpio_spec s \<and>
         driven other_gpio_spec s' = driven other_gpio_spec s"
proof (cases "initialized s")
  case False
  with assms(3) show ?thesis
    by (simp add: gpio_control_set_select_def)
next
  case True
  from assms(1) have ne: "other_gpio_spec \<noteq> gpio_spec"
    by (auto dest: select_specs_cases)
  from assms True
  have "s' = snd (set_requested emul gpio_spec other_gpio_spec state False False s)"
    by (auto simp: gpio_control_set_select_def)
  with set_requested_other [OF ne] show ?thesis
    by simp
qed

theorem other_line_unchanged_witness:
  "select_specs 1 = Some (Select1, Select0) \<and>
   tracked Select0 (snd (gpio_control_set_select False 1 False (line0_high [Nominal, Misread])))
     = tracked Select0 (line0_high [Nominal, Misread]) \<and>
   driven Select0 (snd (gpio_control_set_select False 1 False (line0_high [Nominal, Misread])))
     = driven Select0 (line0_high [Nominal, Misread])"
  using other_line_unchanged [of 1 Select1 Select0 False "line0_high [Nominal, Misread]" False
      "fst (gpio_control_set_select False 1 False (line0_high [Nominal, Misread]))"
      "snd (gpio_control_set_select False 1 False (line0_high [Nominal, Misread]))"]
  by (simp add: select_specs_def)

subsection \<open>Mutual exclusion\<close>

text \<open>
  The tracked states are never both HIGH: every function keeps this, whatever the
  hardware does, and it holds at process start.
\<close>

lemma set_requested_tracked_exclusive:
  assumes "tracked_exclusive s" and "gpio_spec \<noteq> other"
    and "st \<longrightarrow> \<not> tracked other s"
    and "c \<longrightarrow> orig \<longrightarrow> \<not> tracked gpio_spec s"
  shows "tracked_exclusive (snd (set_requested emul gpio_spec other st c orig s))"
  using assms
  by (cases gpio_spec; cases other)
     (auto simp: tracked_exclusive_def set_requested_def split_beta)

lemma init_tracked_exclusive:
  "tracked_exclusive s \<Longrightarrow> tracked_exclusive (snd (gpio_control_init emul s))"
  by (simp add: gpio_control_init_def tracked_exclusive_def split_beta)

lemma set_select_tracked_exclusive:
  assumes "tracked_exclusive s"
  shows "tracked_exclusive (snd (gpio_control_set_select emul select_line st s))"
proof (cases "select_specs select_line")
  case None
  with assms show ?thesis
    by (simp add: gpio_control_set_select_def)
next
  case (Some sp)
  obtain gpio_spec other where sp: "sp = (gpio_spec, other)"
    by (cases sp)
  from Some sp have ne: "gpio_spec \<noteq> other"
    by (auto dest: select_specs_cases)
  have pre: "tracked other s \<Longrightarrow> \<not> tracked gpio_spec s"
    using assms ne by (cases gpio_spec; cases other) (simp_all add: tracked_exclusive_def)
  have ex: "tracked_exclusive (set_tracked other False t)" if "tracked_exclusive t" for t
    using that by (cases other) (simp_all add: tracked_exclusive_def)
  show ?thesis
  proof (cases "initialized s \<and> st \<and> tracked other s")
    case False
    with assms Some sp ne show ?thesis
      by (auto simp: gpio_control_set_select_def set_requested_tracked_exclusive)
  next
    case True
    let ?s1 = "snd (gpio_pin_set_dt other 0 s)"
    let ?s2 = "snd (verify_gpio_state emul other 0 ?s1)"
    have s1: "tracked_exclusive ?s1" and s2: "tracked_exclusive ?s2"
      using assms by (simp_all add: tracked_exclusive_def)
    have "tracked_exclusive
        (snd (set_requested emul gpio_spec other st True (tracked other s)
               (set_tracked other False ?s2)))"
      using ne pre True
      by (intro set_requested_tracked_exclusive ex s2) simp_all
    with True Some sp s1 s2 show ?thesis
      by (simp add: gpio_control_set_select_def Let_def split_beta)
  qed
qed

lemma toggle_unfold:
  "gpio_control_toggle_select emul select_line s =
     (if initialized s \<and> select_line = 0
        then gpio_control_set_select emul select_line (\<not> select0_state s) s
      else if initialized s \<and> select_line = 1
        then gpio_control_set_select emul select_line (\<not> select1_state s) s
      else (- errno_val EINVAL, s))"
  by (simp add: gpio_control_toggle_select_def gpio_control_get_select_def)

lemma exec_call_tracked_exclusive:
  "tracked_exclusive s \<Longrightarrow> tracked_exclusive (snd (exec_call emul c s))"
  by (cases c)
     (simp_all add: init_tracked_exclusive set_select_tracked_exclusive toggle_unfold)

lemma exec_calls_tracked_exclusive:
  "tracked_exclusive s \<Longrightarrow> tracked_exclusive (exec_calls emul cs s)"
  by (induction cs arbitrary: s) (simp_all add: exec_call_tracked_exclusive)

lemma tracked_exclusive_from_boot:
  "tracked_exclusive (exec_calls emul cs (boot_state sc))"
  by (rule exec_calls_tracked_exclusive) (simp add: tracked_exclusive_def boot_state_def)

text \<open>
  C1. The claim is that over every run of \<^verbatim>\<open>gpio_control_init\<close>, \<^verbatim>\<open>gpio_control_set_select\<close>
  and \<^verbatim>\<open>gpio_control_toggle_select\<close> calls, with driver calls free to fail, neither the
  tracked states nor the two lines are both HIGH. The tracked half holds
  (\<open>tracked_exclusive_from_boot\<close>). The lines can both be driven HIGH: the run below, on
  a build with readback, boots, initialises, sets line 0 HIGH and then asks for line 1
  HIGH. Line 0 is cleared, line 1 is written HIGH, and the readback of line 1 fails with
  an I/O error. The rollback then writes line 0 HIGH again while line 1 is still driven
  HIGH. The call returns \<^verbatim>\<open>-EIO\<close> with tracked state HIGH, LOW and both lines driven HIGH.
\<close>

theorem both_lines_driven_high:
  "exec_call False (SetSelect 1 True)
     (exec_calls False [Init, SetSelect 0 True]
        (boot_state [Nominal, Nominal, Nominal, Nominal, Nominal, Nominal, Nominal, Nominal,
                     Nominal, Nominal, Nominal, Fault EIO])) =
   (- errno_val EIO,
    \<lparr>select0_state = True, select1_state = False, initialized = True,
     level0 = True, level1 = True, script = [],
     trace =
       [IsReady Select0, IsReady Select1, Configure Select0, PinGet Select0,
        Configure Select1, PinGet Select1, PinSet Select0 1, PinGet Select0,
        PinSet Select0 0, PinGet Select0, PinSet Select1 1, PinGet Select1,
        PinSet Select0 1]\<rparr>)"
  by (simp add: boot_state_def driver_defs module_defs)

theorem both_lines_driven_high_witness:
  "\<not> driven_exclusive (snd (exec_call False (SetSelect 1 True)
     (exec_calls False [Init, SetSelect 0 True]
        (boot_state [Nominal, Nominal, Nominal, Nominal, Nominal, Nominal, Nominal, Nominal,
                     Nominal, Nominal, Nominal, Fault EIO]))))"
  using both_lines_driven_high
  by (simp add: driven_exclusive_def)

subsection \<open>Simulation builds\<close>

text \<open>
  On a simulation build the verification is skipped, so a line is tracked HIGH exactly
  when a write of HIGH to it has returned 0. The driven levels then follow the tracked
  states through every run from process start, and the two lines are never both driven
  HIGH.
\<close>

lemma verify_emul [simp]: "verify_gpio_state True spec expected s = (0, s)"
  by (simp add: verify_gpio_state_def)

lemma set_dt_sign:
  "fst (gpio_pin_set_dt spec v s) < 0 \<or> fst (gpio_pin_set_dt spec v s) = 0"
  by (simp add: gpio_pin_set_dt_def split: outcome.splits)

lemma all_low_steps [simp]:
  "all_low (snd (gpio_is_ready_dt spec s)) = all_low s"
  "all_low s \<Longrightarrow> all_low (snd (gpio_pin_configure_dt spec s))"
  "all_low s \<Longrightarrow> all_low (s\<lparr>select0_state := False, select1_state := False, initialized := b\<rparr>)"
  by (cases spec; simp add: all_low_def gpio_is_ready_dt_def gpio_pin_configure_dt_def
      split: outcome.splits)+

lemma init_all_low: "all_low s \<Longrightarrow> all_low (snd (gpio_control_init True s))"
  by (simp add: gpio_control_init_def split_beta)

lemma init_in_step:
  assumes "in_step s"
  shows "in_step (snd (gpio_control_init True s))"
proof (cases "initialized s")
  case True
  with assms show ?thesis
    by (simp add: gpio_control_init_def)
next
  case False
  with assms have "all_low s"
    by (auto simp: in_step_def all_low_def)
  then have "all_low (snd (gpio_control_init True s))"
    by (rule init_all_low)
  then show ?thesis
    by (auto simp: in_step_def all_low_def)
qed

lemma set_dt_failed_in_step:
  "in_step s \<Longrightarrow> fst (gpio_pin_set_dt spec v s) \<noteq> 0 \<Longrightarrow>
   in_step (snd (gpio_pin_set_dt spec v s))"
  by (simp add: in_step_def)

lemma set_dt_written_in_step:
  "in_step s \<Longrightarrow> initialized s \<Longrightarrow> fst (gpio_pin_set_dt spec v s) = 0 \<Longrightarrow>
   in_step (set_tracked spec (v \<noteq> 0) (snd (gpio_pin_set_dt spec v s)))"
  by (cases spec) (simp_all add: in_step_def)

lemma rollback_in_step:
  assumes "in_step s" "initialized s"
  shows "in_step (rollback other c orig s)"
proof (cases "c \<and> fst (gpio_pin_set_dt other (if orig then 1 else 0) s) = 0")
  case True
  with set_dt_written_in_step [OF assms, of other "if orig then 1 else 0"] show ?thesis
    by (cases orig) (simp_all add: rollback_def split_beta)
next
  case False
  with set_dt_failed_in_step [OF assms(1), of other "if orig then 1 else 0"] assms(1)
  show ?thesis
    by (auto simp: rollback_def split_beta)
qed

lemma set_requested_in_step:
  assumes "in_step s" "initialized s"
  shows "in_step (snd (set_requested True gpio_spec other st c orig s))"
proof (cases "fst (gpio_pin_set_dt gpio_spec (if st then 1 else 0) s) = 0")
  case True
  with set_dt_written_in_step [OF assms, of gpio_spec "if st then 1 else 0"] show ?thesis
    by (cases st) (simp_all add: set_requested_def split_beta)
next
  case False
  with set_dt_sign [of gpio_spec "if st then 1 else 0" s]
  have neg: "fst (gpio_pin_set_dt gpio_spec (if st then 1 else 0) s) < 0"
    by simp
  from assms(1) False have "in_step (snd (gpio_pin_set_dt gpio_spec (if st then 1 else 0) s))"
    by (rule set_dt_failed_in_step)
  then have "in_step (rollback other c orig (snd (gpio_pin_set_dt gpio_spec (if st then 1 else 0) s)))"
    using assms(2) by (intro rollback_in_step) simp_all
  with neg show ?thesis
    by (simp add: set_requested_def split_beta)
qed

lemma set_select_in_step:
  assumes "in_step s"
  shows "in_step (snd (gpio_control_set_select True select_line st s))"
proof (cases "initialized s")
  case False
  with assms show ?thesis
    by (simp add: gpio_control_set_select_def)
next
  case True
  have cleared: "in_step (set_tracked other False (snd (gpio_pin_set_dt other 0 s)))"
    if "fst (gpio_pin_set_dt other 0 s) = 0" for other
    using assms that True by (cases other) (simp_all add: in_step_def)
  have failed: "in_step (snd (gpio_pin_set_dt other 0 s))"
    if "fst (gpio_pin_set_dt other 0 s) \<noteq> 0" for other
    using assms that by (cases other) (simp_all add: in_step_def)
  show ?thesis
  proof (cases "select_specs select_line")
    case None
    with assms show ?thesis
      by (simp add: gpio_control_set_select_def)
  next
    case (Some sp)
    obtain gpio_spec other where sp: "sp = (gpio_spec, other)"
      by (cases sp)
    show ?thesis
    proof (cases "st \<and> tracked other s")
      case False
      with assms True Some sp show ?thesis
        by (auto simp: gpio_control_set_select_def set_requested_in_step)
    next
      case pre: True
      show ?thesis
      proof (cases "fst (gpio_pin_set_dt other 0 s) = 0")
        case True
        with \<open>initialized s\<close> Some sp pre cleared [OF True] show ?thesis
          by (simp add: gpio_control_set_select_def Let_def split_beta set_requested_in_step)
      next
        case False
        with set_dt_sign [of other 0 s] have "fst (gpio_pin_set_dt other 0 s) < 0"
          by simp
        with \<open>initialized s\<close> Some sp pre failed [OF False] show ?thesis
          by (simp add: gpio_control_set_select_def Let_def split_beta)
      qed
    qed
  qed
qed

lemma exec_call_in_step: "in_step s \<Longrightarrow> in_step (snd (exec_call True c s))"
  by (cases c) (simp_all add: init_in_step set_select_in_step toggle_unfold)

lemma exec_calls_in_step: "in_step s \<Longrightarrow> in_step (exec_calls True cs s)"
  by (induction cs arbitrary: s) (simp_all add: exec_call_in_step)

lemma simulation_driven_exclusive:
  "driven_exclusive (exec_calls True cs (boot_state sc))"
proof -
  have "in_step (boot_state sc)"
    by (simp add: in_step_def boot_state_def)
  then have "in_step (exec_calls True cs (boot_state sc))"
    by (rule exec_calls_in_step)
  with tracked_exclusive_from_boot [of True cs sc] show ?thesis
    by (auto simp: in_step_def tracked_exclusive_def driven_exclusive_def)
qed

subsection \<open>Hardware without faults\<close>

lemma fault_free_next: "fault_free s \<Longrightarrow> next_outcome s = Nominal"
  by (cases "script s") (simp_all add: fault_free_def next_outcome_def)

lemma fault_free_steps [simp]:
  "fault_free s \<Longrightarrow> fault_free (advance c s)"
  "fault_free (drive p b s) = fault_free s"
  "fault_free (set_tracked p b s) = fault_free s"
  by (cases "script s"; simp add: fault_free_def)+

lemma record_update_steps [simp]:
  "fault_free (s\<lparr>level0 := b\<rparr>) = fault_free s"
  "fault_free (s\<lparr>level1 := b\<rparr>) = fault_free s"
  "fault_free (s\<lparr>select0_state := b\<rparr>) = fault_free s"
  "fault_free (s\<lparr>select1_state := b\<rparr>) = fault_free s"
  "advance c (s\<lparr>level0 := b\<rparr>) = (advance c s)\<lparr>level0 := b\<rparr>"
  "advance c (s\<lparr>level1 := b\<rparr>) = (advance c s)\<lparr>level1 := b\<rparr>"
  "advance c (s\<lparr>select0_state := b\<rparr>) = (advance c s)\<lparr>select0_state := b\<rparr>"
  "advance c (s\<lparr>select1_state := b\<rparr>) = (advance c s)\<lparr>select1_state := b\<rparr>"
  by (simp_all add: fault_free_def advance_def)

lemma set_dt_nominal:
  "next_outcome s = Nominal \<Longrightarrow>
   gpio_pin_set_dt spec v s = (0, drive spec (v \<noteq> 0) (advance (PinSet spec v) s))"
  by (simp add: gpio_pin_set_dt_def)

lemma verify_nominal:
  "next_outcome s = Nominal \<Longrightarrow> expected = (if driven spec s then 1 else 0) \<Longrightarrow>
   verify_gpio_state emul spec expected s = (0, if emul then s else advance (PinGet spec) s)"
  by (simp add: verify_gpio_state_def gpio_pin_get_dt_def)

lemma set_requested_fault_free:
  assumes "fault_free s"
  shows "set_requested emul gpio_spec other st c orig s =
     (0, set_tracked gpio_spec st
           (if emul then drive gpio_spec st (advance (PinSet gpio_spec (if st then 1 else 0)) s)
            else advance (PinGet gpio_spec)
                   (drive gpio_spec st (advance (PinSet gpio_spec (if st then 1 else 0)) s))))"
  using assms
  by (simp add: set_requested_def set_dt_nominal verify_nominal fault_free_next)

lemma set_select_fault_free:
  assumes "fault_free s" "initialized s"
    and "select_specs select_line = Some (gpio_spec, other)"
  shows "fst (gpio_control_set_select emul select_line st s) = 0 \<and>
         tracked gpio_spec (snd (gpio_control_set_select emul select_line st s)) = st \<and>
         fault_free (snd (gpio_control_set_select emul select_line st s)) \<and>
         initialized (snd (gpio_control_set_select emul select_line st s))"
  using assms
  by (simp add: gpio_control_set_select_def set_requested_fault_free set_dt_nominal
      verify_nominal fault_free_next Let_def)

text \<open>
  C2. From an initialised controller with line 0 tracked HIGH and line 1 tracked LOW, on
  hardware where every driver call works, \<^verbatim>\<open>gpio_control_set_select(1, true)\<close> returns 0
  and leaves line 0 tracked LOW and line 1 tracked HIGH. It issues exactly two writes,
  in this order: line 0 to 0, then line 1 to 1, each followed by its readback (on a
  simulation build the verification reads nothing back).
\<close>

theorem preemption_two_writes:
  assumes "initialized s" "select0_state s" "\<not> select1_state s" "fault_free s"
    and "gpio_control_set_select emul 1 True s = (ret, s')"
  shows "ret = 0 \<and> \<not> select0_state s' \<and> select1_state s' \<and>
         trace s' = trace s @
           (if emul then [PinSet Select0 0, PinSet Select1 1]
            else [PinSet Select0 0, PinGet Select0, PinSet Select1 1, PinGet Select1])"
  using assms
  by (auto simp: gpio_control_set_select_def select_specs_def set_requested_fault_free
      set_dt_nominal verify_nominal fault_free_next Let_def)

theorem preemption_two_writes_witness:
  "initialized (line0_high []) \<and> select0_state (line0_high []) \<and>
   \<not> select1_state (line0_high []) \<and> fault_free (line0_high []) \<and>
   fst (gpio_control_set_select False 1 True (line0_high [])) = 0 \<and>
   trace (snd (gpio_control_set_select False 1 True (line0_high []))) =
     [PinSet Select0 0, PinGet Select0, PinSet Select1 1, PinGet Select1]"
  using preemption_two_writes [of "line0_high []" False
      "fst (gpio_control_set_select False 1 True (line0_high []))"
      "snd (gpio_control_set_select False 1 True (line0_high []))"]
  by (simp add: line0_high_def fault_free_def)

text \<open>
  C8. On an initialised controller and hardware where every driver call works,
  \<^verbatim>\<open>gpio_control_toggle_select\<close> on line 0 or 1 does what \<^verbatim>\<open>gpio_control_set_select\<close> does with
  the negation of the tracked state of that line. The first toggle returns 0 and inverts
  the tracked state of the line; a second toggle returns 0 and brings it back. So from
  line 0 LOW, one toggle gives HIGH and the next gives LOW.
\<close>

theorem toggle_twice:
  assumes "initialized s" "fault_free s"
    and "select_specs select_line = Some (gpio_spec, other_gpio_spec)"
    and "gpio_control_toggle_select emul select_line s = (r1, s1)"
    and "gpio_control_toggle_select emul select_line s1 = (r2, s2)"
  shows "gpio_control_toggle_select emul select_line s =
           gpio_control_set_select emul select_line (\<not> tracked gpio_spec s) s \<and>
         r1 = 0 \<and> tracked gpio_spec s1 = (\<not> tracked gpio_spec s) \<and>
         r2 = 0 \<and> tracked gpio_spec s2 = tracked gpio_spec s"
proof -
  have unfold: "gpio_control_toggle_select emul select_line t =
      gpio_control_set_select emul select_line (\<not> tracked gpio_spec t) t"
    if "initialized t" for t
    using that assms(3) by (auto simp: toggle_unfold dest: select_specs_cases)
  from assms(1) have t1: "gpio_control_set_select emul select_line (\<not> tracked gpio_spec s) s = (r1, s1)"
    using assms(4) by (simp add: unfold)
  with set_select_fault_free [OF assms(2,1,3), of emul "\<not> tracked gpio_spec s"]
  have first: "r1 = 0" "tracked gpio_spec s1 = (\<not> tracked gpio_spec s)"
    "fault_free s1" "initialized s1"
    by simp_all
  then have "gpio_control_set_select emul select_line (\<not> tracked gpio_spec s1) s1 = (r2, s2)"
    using assms(5) by (simp add: unfold)
  with set_select_fault_free [OF first(3,4) assms(3), of emul "\<not> tracked gpio_spec s1"]
  have "r2 = 0" "tracked gpio_spec s2 = (\<not> tracked gpio_spec s1)"
    by simp_all
  with first assms(1) show ?thesis
    by (simp add: unfold)
qed

theorem toggle_twice_witness:
  "initialized (lines_low []) \<and> fault_free (lines_low []) \<and> \<not> select0_state (lines_low []) \<and>
   fst (gpio_control_toggle_select False 0 (lines_low [])) = 0 \<and>
   select0_state (snd (gpio_control_toggle_select False 0 (lines_low []))) \<and>
   fst (gpio_control_toggle_select False 0
          (snd (gpio_control_toggle_select False 0 (lines_low [])))) = 0 \<and>
   \<not> select0_state (snd (gpio_control_toggle_select False 0
          (snd (gpio_control_toggle_select False 0 (lines_low [])))))"
proof -
  have h: "initialized (lines_low [])" "fault_free (lines_low [])"
    "select_specs 0 = Some (Select0, Select1)" "\<not> select0_state (lines_low [])"
    by (simp_all add: lines_low_def fault_free_def select_specs_def)
  have sel: "tracked Select0 = select0_state"
    by (rule ext) simp
  from toggle_twice [OF h(1,2,3) surjective_pairing surjective_pairing, of False] h
  show ?thesis
    unfolding sel by blast
qed

subsection \<open>Failures at the pre-emption step and at the requested line\<close>

text \<open>
  C3. From an initialised controller with line 0 tracked HIGH, line 1 tracked LOW and
  line 1 driven LOW: when in \<^verbatim>\<open>gpio_control_set_select(1, true)\<close> the clearing of line 0
  works (write and verification), the write of line 1 fails with error \<open>e\<close> and the
  rollback write works, the call returns \<^verbatim>\<open>-e\<close>, and the tracked and the driven state are
  again line 0 HIGH, line 1 LOW.
\<close>

theorem rollback_after_write_failure:
  assumes "initialized s" "select0_state s" "\<not> select1_state s" "\<not> level1 s"
    and "script s = (if emul then [Nominal, Fault e, Nominal]
                     else [Nominal, Nominal, Fault e, Nominal]) @ rest"
    and "gpio_control_set_select emul 1 True s = (ret, s')"
  shows "ret = - errno_val e \<and> select0_state s' \<and> \<not> select1_state s' \<and>
         level0 s' \<and> \<not> level1 s' \<and>
         trace s' = trace s @
           (if emul then [PinSet Select0 0, PinSet Select1 1, PinSet Select0 1]
            else [PinSet Select0 0, PinGet Select0, PinSet Select1 1, PinSet Select0 1])"
  using assms
  by (cases emul) (auto simp: driver_defs module_defs)

theorem rollback_after_write_failure_witness:
  "fst (gpio_control_set_select False 1 True
          (line0_high [Nominal, Nominal, Fault EWOULDBLOCK, Nominal])) = - 11 \<and>
   select0_state (snd (gpio_control_set_select False 1 True
          (line0_high [Nominal, Nominal, Fault EWOULDBLOCK, Nominal]))) \<and>
   level0 (snd (gpio_control_set_select False 1 True
          (line0_high [Nominal, Nominal, Fault EWOULDBLOCK, Nominal]))) \<and>
   \<not> level1 (snd (gpio_control_set_select False 1 True
          (line0_high [Nominal, Nominal, Fault EWOULDBLOCK, Nominal])))"
  using rollback_after_write_failure
     [of "line0_high [Nominal, Nominal, Fault EWOULDBLOCK, Nominal]" False EWOULDBLOCK "[]"
      "fst (gpio_control_set_select False 1 True
          (line0_high [Nominal, Nominal, Fault EWOULDBLOCK, Nominal]))"
      "snd (gpio_control_set_select False 1 True
          (line0_high [Nominal, Nominal, Fault EWOULDBLOCK, Nominal]))"]
  by (simp add: line0_high_def)

lemma set_dt_fault:
  "next_outcome s = Fault e \<Longrightarrow>
   gpio_pin_set_dt spec v s = (- errno_val e, advance (PinSet spec v) s)"
  by (simp add: gpio_pin_set_dt_def)

lemma set_dt_no_fault:
  "\<forall>e. next_outcome s \<noteq> Fault e \<Longrightarrow>
   gpio_pin_set_dt spec v s = (0, drive spec (v \<noteq> 0) (advance (PinSet spec v) s))"
  by (simp add: gpio_pin_set_dt_def split: outcome.splits)

lemma verify_not_nominal:
  "next_outcome s \<noteq> Nominal \<Longrightarrow> \<not> driven spec s \<Longrightarrow>
   verify_gpio_state False spec 0 s = (- errno_val EIO, advance (PinGet spec) s)"
  by (simp add: verify_gpio_state_def gpio_pin_get_dt_def split: outcome.splits)

text \<open>
  C4. On an initialised controller, \<^verbatim>\<open>gpio_control_set_select(line, true)\<close> with the other
  line tracked HIGH: when the write that clears the other line fails, or (on a build
  with readback) the readback after it fails or reads a wrong level, the call returns
  that failure at once (the error of the driver for the write, \<^verbatim>\<open>-EIO\<close> for the
  verification), both tracked states are as before, and the only driver calls made are
  the write to the other line and, in the second case, its readback: the requested line
  is not written.
\<close>

theorem preemption_failure_changes_nothing:
  assumes init: "initialized s"
    and specs: "select_specs select_line = Some (gpio_spec, other_gpio_spec)"
    and other: "tracked other_gpio_spec s"
    and fails: "(\<exists>e rest. script s = Fault e # rest) \<or>
         (\<not> emul \<and> (\<exists>w r rest. script s = w # r # rest \<and> r \<noteq> Nominal))"
    and call: "gpio_control_set_select emul select_line True s = (ret, s')"
  shows "gpio_spec \<noteq> other_gpio_spec \<and>
         ret < 0 \<and> select0_state s' = select0_state s \<and>
         select1_state s' = select1_state s \<and>
         (case next_outcome s of
            Fault e \<Rightarrow> ret = - errno_val e \<and> trace s' = trace s @ [PinSet other_gpio_spec 0]
          | _ \<Rightarrow> ret = - errno_val EIO \<and>
                trace s' = trace s @ [PinSet other_gpio_spec 0, PinGet other_gpio_spec])"
proof (cases "\<exists>e. next_outcome s = Fault e")
  case True
  then obtain e where e: "next_outcome s = Fault e" ..
  from init specs other call e
  have "ret = - errno_val e" "s' = advance (PinSet other_gpio_spec 0) s"
    by (simp_all add: gpio_control_set_select_def set_dt_fault)
  with e specs show ?thesis
    by (auto dest: select_specs_cases)
next
  case False
  with fails obtain w r rest where
    sc: "script s = w # r # rest" "r \<noteq> Nominal" and emul: "\<not> emul"
    by (auto simp: next_outcome_def)
  let ?s1 = "drive other_gpio_spec False (advance (PinSet other_gpio_spec 0) s)"
  from False have w: "gpio_pin_set_dt other_gpio_spec 0 s = (0, ?s1)"
    by (simp add: set_dt_no_fault)
  from sc have "next_outcome ?s1 \<noteq> Nominal"
    by (simp add: next_outcome_def)
  then have v: "verify_gpio_state False other_gpio_spec 0 ?s1 =
      (- errno_val EIO, advance (PinGet other_gpio_spec) ?s1)"
    by (rule verify_not_nominal) simp
  from init specs other call emul w v
  have "ret = - errno_val EIO" "s' = advance (PinGet other_gpio_spec) ?s1"
    by (simp_all add: gpio_control_set_select_def)
  with False specs show ?thesis
    by (cases "next_outcome s") (auto dest: select_specs_cases)
qed

theorem preemption_failure_changes_nothing_witness:
  "fst (gpio_control_set_select False 1 True (line0_high [Nominal, Misread])) = - 5 \<and>
   select0_state (snd (gpio_control_set_select False 1 True (line0_high [Nominal, Misread]))) \<and>
   \<not> select1_state (snd (gpio_control_set_select False 1 True (line0_high [Nominal, Misread]))) \<and>
   trace (snd (gpio_control_set_select False 1 True (line0_high [Nominal, Misread]))) =
     [PinSet Select0 0, PinGet Select0]"
  using preemption_failure_changes_nothing
     [of "line0_high [Nominal, Misread]" 1 Select1 Select0 False
      "fst (gpio_control_set_select False 1 True (line0_high [Nominal, Misread]))"
      "snd (gpio_control_set_select False 1 True (line0_high [Nominal, Misread]))"]
  by (simp add: line0_high_def select_specs_def next_outcome_def)

subsection \<open>The value returned on failure\<close>

lemma cause_value_negative: "cause_value c < 0"
  by (cases c) simp_all

lemma outcome_at_0: "next_outcome s = outcome_at s 0"
  by (simp add: next_outcome_def outcome_at_def)

lemma outcome_at_steps [simp]:
  "outcome_at (advance c s) i = outcome_at s (Suc i)"
  "outcome_at (drive p b s) i = outcome_at s i"
  "outcome_at (set_tracked p b s) i = outcome_at s i"
  by (simp_all add: outcome_at_def drop_Suc tl_drop)

lemma outcome_at_set_dt [simp]:
  "outcome_at (snd (gpio_pin_set_dt spec v s)) i = outcome_at s (Suc i)"
  by (simp add: gpio_pin_set_dt_def split: outcome.splits)

lemma outcome_at_verify [simp]:
  "outcome_at (snd (verify_gpio_state emul spec expected s)) i =
     outcome_at s (if emul then i else Suc i)"
  by (simp add: verify_gpio_state_def gpio_pin_get_dt_def split_beta split: outcome.splits)

lemma set_dt_value:
  "fst (gpio_pin_set_dt spec v s) = value_of (write_cause spec (outcome_at s 0))"
  by (simp add: gpio_pin_set_dt_def write_cause_def value_of_def outcome_at_0 [symmetric]
      split: outcome.splits)

lemma verify_value:
  "driven spec s = b \<Longrightarrow>
   fst (verify_gpio_state emul spec (if b then 1 else 0) s) =
     value_of (verify_cause emul spec (outcome_at s 0))"
  by (auto simp: verify_gpio_state_def gpio_pin_get_dt_def verify_cause_def value_of_def
      outcome_at_0 [symmetric] split: outcome.splits)

lemma value_of_zero: "value_of c = 0 \<longleftrightarrow> c = None"
  using cause_value_negative by (cases c) (auto simp: value_of_def less_le)

lemma value_of_negative: "value_of c < 0 \<longleftrightarrow> c \<noteq> None"
  using cause_value_negative by (cases c) (auto simp: value_of_def)

lemma value_of_simps [simp]:
  "value_of None = 0"
  "value_of (Some c) = cause_value c"
  by (simp_all add: value_of_def)

lemma written_step:
  assumes "write_cause spec (outcome_at s 0) = None"
  shows "fst (verify_gpio_state emul spec (if b then 1 else 0)
            (snd (gpio_pin_set_dt spec (if b then 1 else 0) s))) =
         value_of (verify_cause emul spec (outcome_at s 1))"
proof -
  from assms have "fst (gpio_pin_set_dt spec (if b then 1 else 0) s) = 0"
    by (simp add: set_dt_value)
  then have "driven spec (snd (gpio_pin_set_dt spec (if b then 1 else 0) s)) = b"
    by simp
  from verify_value [OF this, of emul] show ?thesis
    by simp
qed

lemma set_requested_value:
  "fst (set_requested emul gpio_spec other st c orig s) =
     value_of (step_cause emul gpio_spec s 0)"
proof (cases "write_cause gpio_spec (outcome_at s 0)")
  case None
  let ?v = "value_of (verify_cause emul gpio_spec (outcome_at s 1))"
  from None have w: "fst (gpio_pin_set_dt gpio_spec (if st then 1 else 0) s) = 0"
    by (simp add: set_dt_value)
  have "?v < 0 \<or> ?v = 0"
    using value_of_negative value_of_zero by blast
  with None w written_step [OF None, of emul st] show ?thesis
    by (auto simp: set_requested_def split_beta step_cause_def)
next
  case (Some a)
  then have "fst (gpio_pin_set_dt gpio_spec (if st then 1 else 0) s) = cause_value a"
    by (simp add: set_dt_value)
  with Some cause_value_negative [of a] show ?thesis
    by (simp add: set_requested_def split_beta step_cause_def)
qed

lemma step_cause_shift:
  "(\<And>i. outcome_at t i = outcome_at s (k + i)) \<Longrightarrow>
   step_cause emul p t 0 = step_cause emul p s k"
  by (simp add: step_cause_def split: option.splits)

lemma set_select_value:
  assumes "initialized s" "select_specs select_line = Some (gpio_spec, other)"
  shows "fst (gpio_control_set_select emul select_line st s) =
         value_of (set_select_cause emul select_line st s)"
proof (cases "st \<and> tracked other s")
  case False
  with assms show ?thesis
    by (auto simp: gpio_control_set_select_def set_select_cause_def set_requested_value)
next
  case True
  let ?s1 = "snd (gpio_pin_set_dt other 0 s)"
  let ?s2 = "snd (verify_gpio_state emul other 0 ?s1)"
  let ?s3 = "set_tracked other False ?s2"
  show ?thesis
  proof (cases "write_cause other (outcome_at s 0)")
    case (Some a)
    then have "fst (gpio_pin_set_dt other 0 s) = cause_value a"
      by (simp add: set_dt_value)
    with Some cause_value_negative [of a] assms True show ?thesis
      by (simp add: gpio_control_set_select_def set_select_cause_def step_cause_def
          Let_def split_beta)
  next
    case None
    then have w: "fst (gpio_pin_set_dt other 0 s) = 0"
      by (simp add: set_dt_value)
    from written_step [OF None, of emul False]
    have v: "fst (verify_gpio_state emul other 0 ?s1) =
        value_of (verify_cause emul other (outcome_at s 1))"
      by simp
    show ?thesis
    proof (cases "verify_cause emul other (outcome_at s 1)")
      case (Some a)
      with v cause_value_negative [of a] None w assms True show ?thesis
        by (simp add: gpio_control_set_select_def set_select_cause_def step_cause_def
            Let_def split_beta)
    next
      case vn: None
      have "step_cause emul gpio_spec ?s3 0 =
          step_cause emul gpio_spec s (if emul then 1 else 2)"
        by (rule step_cause_shift) simp
      with vn v None w assms True show ?thesis
        by (simp add: gpio_control_set_select_def set_select_cause_def step_cause_def
            Let_def split_beta set_requested_value)
    qed
  qed
qed

text \<open>
  The value \<^verbatim>\<open>gpio_control_set_select\<close> returns does not tell the causes of a failure
  apart, and does not name a line: an uninitialised controller and a wrong line number
  both give \<^verbatim>\<open>-EINVAL\<close> (22); a failed write on line 0, a failed write on line 1 and a
  failed verification all give \<^verbatim>\<open>-EIO\<close> (5).
\<close>

theorem set_select_failure_counterexample:
  "fst (gpio_control_set_select False 0 True (boot_state [])) = - 22 \<and>
   fst (gpio_control_set_select False 2 True (lines_low [])) = - 22 \<and>
   fst (gpio_control_set_select False 0 True (lines_low [Fault EIO])) = - 5 \<and>
   fst (gpio_control_set_select False 1 True (lines_low [Fault EIO])) = - 5 \<and>
   fst (gpio_control_set_select False 1 True (lines_low [Nominal, Misread])) = - 5"
  by (simp add: boot_state_def lines_low_def driver_defs module_defs)

text \<open>
  C6 (amended). The value \<^verbatim>\<open>gpio_control_set_select\<close> returns is fixed by the cause of
  the failure. It is 0 when nothing goes wrong, and negative otherwise: \<^verbatim>\<open>-EINVAL\<close>, with
  the state untouched, when the controller is not initialised and when the line is
  neither 0 nor 1; the error the driver returned, when the first thing to go wrong is a
  write (the clearing of the other line or the write of the requested line); \<^verbatim>\<open>-EIO\<close>
  when the first thing to go wrong is the readback after such a write. The value does
  not depend on the line.
\<close>

theorem set_select_failure_values:
  assumes "gpio_control_set_select emul select_line state s = (ret, s')"
  shows "(case set_select_cause emul select_line state s of
            None \<Rightarrow> ret = 0
          | Some c \<Rightarrow>
              ret = cause_value c \<and> ret < 0 \<and>
              ((c = NotInitialized \<or> c = InvalidLine) \<longrightarrow> s' = s))"
proof (cases "\<not> initialized s \<or> select_specs select_line = None")
  case True
  then have "gpio_control_set_select emul select_line state s = (- errno_val EINVAL, s)"
    by (cases "initialized s") (simp_all add: gpio_control_set_select_def)
  with assms True show ?thesis
    by (auto simp: set_select_cause_def)
next
  case False
  then obtain gpio_spec other where sp: "select_specs select_line = Some (gpio_spec, other)"
    by auto
  with False assms set_select_value [of s select_line gpio_spec other emul state]
  have ret: "ret = value_of (set_select_cause emul select_line state s)"
    by simp
  have "c \<noteq> NotInitialized \<and> c \<noteq> InvalidLine"
    if "set_select_cause emul select_line state s = Some c" for c
    using that False sp
    by (auto simp: set_select_cause_def step_cause_def write_cause_def verify_cause_def
        split: if_splits option.splits outcome.splits)
  with ret cause_value_negative show ?thesis
    by (cases "set_select_cause emul select_line state s") auto
qed

theorem set_select_failure_values_witness:
  "set_select_cause False 0 True (lines_low [Nominal, Fault EWOULDBLOCK]) =
     Some (VerificationFailed Select0) \<and>
   fst (gpio_control_set_select False 0 True (lines_low [Nominal, Fault EWOULDBLOCK])) = - 5 \<and>
   set_select_cause False 1 True (line0_high [Nominal, Nominal, Fault ENOTSUP]) =
     Some (HardwareWriteFailed Select1 ENOTSUP) \<and>
   fst (gpio_control_set_select False 1 True (line0_high [Nominal, Nominal, Fault ENOTSUP]))
     = - 134"
proof -
  have c1: "set_select_cause False 0 True (lines_low [Nominal, Fault EWOULDBLOCK]) =
      Some (VerificationFailed Select0)"
    and c2: "set_select_cause False 1 True (line0_high [Nominal, Nominal, Fault ENOTSUP]) =
      Some (HardwareWriteFailed Select1 ENOTSUP)"
    by (simp_all add: set_select_cause_def step_cause_def write_cause_def verify_cause_def
        outcome_at_def select_specs_def lines_low_def line0_high_def)
  from set_select_failure_values [OF surjective_pairing,
      of False 0 True "lines_low [Nominal, Fault EWOULDBLOCK]"]
    set_select_failure_values [OF surjective_pairing,
      of False 1 True "line0_high [Nominal, Nominal, Fault ENOTSUP]"]
  show ?thesis
    unfolding c1 c2 by simp
qed

subsection \<open>Initialisation\<close>

lemma init_success:
  assumes "fst (gpio_control_init emul s) = 0"
  shows "initialized (snd (gpio_control_init emul s)) \<and>
         (\<not> initialized s \<longrightarrow>
            \<not> select0_state (snd (gpio_control_init emul s)) \<and>
            \<not> select1_state (snd (gpio_control_init emul s)))"
  using assms
  by (simp add: gpio_control_init_def split_beta split: if_splits)

text \<open>
  C7. After a call of \<^verbatim>\<open>gpio_control_init\<close> that returned 0, a second call returns 0 and
  the state as it was: no driver call is added to the trace. When the first call found
  the controller uninitialised, both tracked states are LOW after it, and so after the
  second call.
\<close>

theorem init_twice:
  assumes "gpio_control_init emul s = (0, s1)"
  shows "gpio_control_init emul s1 = (0, s1) \<and>
         (\<not> initialized s \<longrightarrow> \<not> select0_state s1 \<and> \<not> select1_state s1)"
proof -
  from assms have "fst (gpio_control_init emul s) = 0" "snd (gpio_control_init emul s) = s1"
    by simp_all
  with init_success [of emul s]
  have "initialized s1" "\<not> initialized s \<longrightarrow> \<not> select0_state s1 \<and> \<not> select1_state s1"
    by auto
  then show ?thesis
    by (simp add: gpio_control_init_def)
qed

theorem init_twice_witness:
  "\<not> initialized (boot_state []) \<and>
   fst (gpio_control_init False (boot_state [])) = 0 \<and>
   gpio_control_init False (snd (gpio_control_init False (boot_state []))) =
     (0, snd (gpio_control_init False (boot_state []))) \<and>
   \<not> select0_state (snd (gpio_control_init False (boot_state []))) \<and>
   \<not> select1_state (snd (gpio_control_init False (boot_state []))) \<and>
   trace (snd (gpio_control_init False (boot_state []))) =
     [IsReady Select0, IsReady Select1, Configure Select0, PinGet Select0,
      Configure Select1, PinGet Select1]"
proof -
  have run: "gpio_control_init False (boot_state []) =
    (0, \<lparr>select0_state = False, select1_state = False, initialized = True,
         level0 = False, level1 = False, script = [],
         trace = [IsReady Select0, IsReady Select1, Configure Select0, PinGet Select0,
                  Configure Select1, PinGet Select1]\<rparr>)"
    by (simp add: boot_state_def driver_defs gpio_control_init_def)
  from init_twice [OF run] run show ?thesis
    by (simp add: boot_state_def)
qed

end
